theory Spec2Isabelle
  imports Main
begin

section \<open>Wavefront OBJ/MTL export of Dawn of War 2 models\<close>

text \<open>
  A shallow embedding of \<^verbatim>\<open>relic/chunk_formats/Dow2/model/writer.py\<close>.

  The two output streams are modelled as the list of what has been written to them, oldest
  first. A raw \<^verbatim>\<open>stream.write(s)\<close> is an entry carrying the text; a call of a method of
  \<^verbatim>\<open>ObjWriter\<close> or \<^verbatim>\<open>MtlWriter\<close> (module \<^verbatim>\<open>relic.file_formats.wavefront_obj\<close>, which is not
  part of the file embedded here) is an entry carrying the method and its arguments.
  Every function takes the stream and returns the stream it leaves behind together with
  its result; an exception is the \<open>Inl\<close> branch of the result, and the stream returned with
  it is what had been written when the exception was raised.
\<close>

subsection \<open>Exceptions\<close>

text \<open>
  \<^item> \<open>ValueError_unpack n\<close>: the \<^verbatim>\<open>ValueError\<close> of unpacking an iterable of \<open>n\<close> items
    into two targets;
  \<^item> \<open>ValueError_TextureType s\<close>: the \<^verbatim>\<open>ValueError\<close> of \<^verbatim>\<open>TextureType(s)\<close> when no
    member has the value \<open>s\<close>;
  \<^item> \<open>NotImplementedError a\<close>: \<^verbatim>\<open>NotImplementedError\<close> with its argument, \<open>None\<close> when
    the class is raised bare.
\<close>

datatype error =
    ValueError_unpack nat
  | ValueError_TextureType string
  | NotImplementedError "string option"

subsection \<open>Data model\<close>

text \<open>
  Modelled from the spec: the chunk classes \<^verbatim>\<open>TrimDataChunk\<close>, \<^verbatim>\<open>VarChunk\<close>,
  \<^verbatim>\<open>MaterialVarType\<close>, \<^verbatim>\<open>MtrlChunk\<close> and \<^verbatim>\<open>ModelChunky\<close> are imported by the writer from
  modules that are not part of it. The records below have the attributes the writer
  reads, under the names it reads them by. The type \<open>'f\<close> stands for the floats of a
  vertex, which the writer passes on untouched.
\<close>

record 'f Vertex =
  position :: "'f \<times> 'f \<times> 'f"
  normal :: "'f \<times> 'f \<times> 'f"
  uv :: "'f \<times> 'f"

record 'f TrimDataChunk =
  material_name :: string
  vertexes :: "'f Vertex list"
  indexes :: "int list"

datatype MaterialVarType = Texture | OtherVarType

record VarChunk =
  var_type :: MaterialVarType
  property_name :: string
  args :: string

record MtrlInfoChunk =
  shader_name :: string

record MtrlChunk =
  name :: string
  info :: MtrlInfoChunk
  vars :: "VarChunk list"

text \<open>
  Modelled from the spec: \<open>meshs\<close> is the sequence
  \<^verbatim>\<open>chunk.modl.mesh.mgrp.mesh.imdg.mesh.imod.meshs\<close>, each mesh given by its
  \<^verbatim>\<open>mesh.trim.data\<close>; \<open>mtrls\<close> is \<^verbatim>\<open>chunk.modl.mtrls\<close>.
\<close>

record 'f ModelChunky =
  meshs :: "'f TrimDataChunk list"
  mtrls :: "MtrlChunk list"

subsection \<open>The geometry stream\<close>

datatype 'f obj_line =
    Write string
  | Write_material_library string
  | Write_object_name string
  | Write_vertex_position "'f \<times> 'f \<times> 'f"
  | Write_vertex_normal "'f \<times> 'f \<times> 'f"
  | Write_vertex_uv "'f \<times> 'f"
  | Write_use_material string
  | Write_index_face int int int int bool

text \<open>
  \<open>Write_index_face a b c offset zero_based\<close> is the call
  \<^verbatim>\<open>writer.write_index_face(a, b, c, offset=offset, zero_based=zero_based)\<close>.
\<close>

subsection \<open>Strings\<close>

definition TAB :: char where
  "TAB = CHR 0x09"

text \<open>\<^verbatim>\<open>s.rsplit(".", maxsplit=1)\<close>: split at the last dot, if there is one.\<close>

definition rsplit_dot :: "string \<Rightarrow> string list" where
  "rsplit_dot s =
     (if CHR ''.'' \<in> set s
      then [rev (tl (dropWhile (\<lambda>c. c \<noteq> CHR ''.'') (rev s))),
            rev (takeWhile (\<lambda>c. c \<noteq> CHR ''.'') (rev s))]
      else [s])"

text \<open>
  The value of \<^verbatim>\<open>name or chunk.material_name.rsplit(".", maxsplit=1)\<close> is the string
  \<^verbatim>\<open>name\<close> when it is neither \<^verbatim>\<open>None\<close> nor empty, and the list of the split otherwise.
  Unpacking iterates over it: a string gives its characters, each a string of length one.
\<close>

datatype name_source = Str string | Strs "string list"

fun name_or_rsplit :: "string option \<Rightarrow> string \<Rightarrow> name_source" where
  "name_or_rsplit None material = Strs (rsplit_dot material)"
| "name_or_rsplit (Some n) material =
     (if n = [] then Strs (rsplit_dot material) else Str n)"

fun iterate :: "name_source \<Rightarrow> string list" where
  "iterate (Str s) = map (\<lambda>c. [c]) s"
| "iterate (Strs xs) = xs"

fun unpack2 :: "string list \<Rightarrow> error + string \<times> string" where
  "unpack2 [a, b] = Inr (a, b)"
| "unpack2 xs = Inl (ValueError_unpack (length xs))"

subsection \<open>Writing one mesh\<close>

fun write_vertexes :: "'f obj_line list \<Rightarrow> 'f Vertex list \<Rightarrow> 'f obj_line list" where
  "write_vertexes stream [] = stream"
| "write_vertexes stream (v # vs) =
     write_vertexes
       (stream @ [Write [TAB], Write_vertex_position (position v),
                  Write [TAB], Write_vertex_normal (normal v),
                  Write [TAB], Write_vertex_uv (uv v),
                  Write ''\<newline>''])
       vs"

text \<open>
  The loop over \<^verbatim>\<open>range(int(len(chunk.indexes) // 3))\<close>. Every \<open>index\<close> of that range
  has \<open>3 * index + 2 < length indexes\<close>, so the three subscripts are in range.
\<close>

fun write_indexes :: "'f obj_line list \<Rightarrow> int list \<Rightarrow> int \<Rightarrow> nat list \<Rightarrow> 'f obj_line list" where
  "write_indexes stream ixs v_offset [] = stream"
| "write_indexes stream ixs v_offset (index # rest) =
     write_indexes
       (stream @ [Write [TAB],
                  Write_index_face (ixs ! (3 * index)) (ixs ! (3 * index + 1))
                    (ixs ! (3 * index + 2)) v_offset True])
       ixs v_offset rest"

text \<open>
  \<^verbatim>\<open>write_trim_data_to_obj(stream, chunk, name, v_offset)\<close>. The parameters
  \<^verbatim>\<open>validate\<close> and \<^verbatim>\<open>axis_fix\<close> are never read and are left out; the parameter
  \<^verbatim>\<open>name\<close> is \<open>nm\<close> here, \<open>None\<close> being its default.
\<close>

definition write_trim_data_to_obj ::
  "'f obj_line list \<Rightarrow> 'f TrimDataChunk \<Rightarrow> string option \<Rightarrow> int
     \<Rightarrow> 'f obj_line list \<times> (error + int)" where
  "write_trim_data_to_obj stream chunk nm v_offset =
     (let stream1 = stream @ [Write ''\<newline># Object\<newline>'']
      in case unpack2 (iterate (name_or_rsplit nm (material_name chunk))) of
           Inl e \<Rightarrow> (stream1, Inl e)
         | Inr (u, label) \<Rightarrow>
             (let stream2 = stream1 @ [Write_object_name label];
                  stream3 = stream2 @ [Write (TAB # ''# Vertexes\<newline>'')];
                  stream4 = write_vertexes stream3 (vertexes chunk);
                  stream5 = stream4 @ [Write ''# Material\<newline>''];
                  stream6 = stream5 @ [Write_use_material (material_name chunk)];
                  stream7 = stream6 @ [Write (TAB # ''# Indexes\<newline>'')];
                  stream8 = write_indexes stream7 (indexes chunk) v_offset
                              [0 ..< length (indexes chunk) div 3]
              in (stream8, Inr (v_offset + int (length (vertexes chunk))))))"

subsection \<open>Writing all meshes\<close>

text \<open>
  The loop of \<^verbatim>\<open>write_model_to_obj\<close>:
  \<^verbatim>\<open>v_offset += write_trim_data_to_obj(stream, mesh.trim.data, v_offset=v_offset)\<close>.
\<close>

fun write_meshs ::
  "'f obj_line list \<Rightarrow> int \<Rightarrow> 'f TrimDataChunk list \<Rightarrow> 'f obj_line list \<times> (error + int)" where
  "write_meshs stream v_offset [] = (stream, Inr v_offset)"
| "write_meshs stream v_offset (mesh # rest) =
     (case write_trim_data_to_obj stream mesh None v_offset of
        (stream', Inl e) \<Rightarrow> (stream', Inl e)
      | (stream', Inr r) \<Rightarrow> write_meshs stream' (v_offset + r) rest)"

definition write_model_to_obj ::
  "'f obj_line list \<Rightarrow> 'f ModelChunky \<Rightarrow> 'f obj_line list \<times> (error + int)" where
  "write_model_to_obj stream chunk = write_meshs stream 0 (meshs chunk)"

text \<open>
  Modelled from the spec: \<^verbatim>\<open>ObjWriter.write_index_face\<close> is not part of the writer. With
  \<^verbatim>\<open>zero_based=True\<close> it writes the local index \<open>k\<close> as the global, one-based index
  \<open>offset + k + 1\<close>.
\<close>

definition face_index :: "int \<Rightarrow> int \<Rightarrow> int" where
  "face_index v_offset k = v_offset + k + 1"

subsection \<open>Texture types and shaders\<close>

datatype TextureType =
    Team | Dirt | BadgeSecondary | BadgePrimary | Normal
  | Diffuse | Emissive | Specular | Occlusion | Gloss

fun TextureType_value :: "TextureType \<Rightarrow> string" where
  "TextureType_value Team = ''teamTex''"
| "TextureType_value Dirt = ''dirtTex''"
| "TextureType_value BadgeSecondary = ''badge2Tex''"
| "TextureType_value BadgePrimary = ''badge1Tex''"
| "TextureType_value Normal = ''normalMap''"
| "TextureType_value Diffuse = ''diffuseTex''"
| "TextureType_value Emissive = ''emissiveTex''"
| "TextureType_value Specular = ''specularTex''"
| "TextureType_value Occlusion = ''occlusionTex''"
| "TextureType_value Gloss = ''glossTex''"

definition TextureType_members :: "TextureType list" where
  "TextureType_members =
     [Team, Dirt, BadgeSecondary, BadgePrimary, Normal,
      Diffuse, Emissive, Specular, Occlusion, Gloss]"

text \<open>
  \<^verbatim>\<open>TextureType(s)\<close>: the member whose value is \<open>s\<close>, or a \<^verbatim>\<open>ValueError\<close> naming \<open>s\<close>.
\<close>

definition TextureType_call :: "string \<Rightarrow> error + TextureType" where
  "TextureType_call s =
     (case find (\<lambda>t. TextureType_value t = s) TextureType_members of
        None \<Rightarrow> Inl (ValueError_TextureType s)
      | Some t \<Rightarrow> Inr t)"

datatype SupportedShaders = Dow2_Unit | Dow2_Unit_2Uv

fun SupportedShaders_value :: "SupportedShaders \<Rightarrow> string" where
  "SupportedShaders_value Dow2_Unit = ''dow2_unit''"
| "SupportedShaders_value Dow2_Unit_2Uv = ''dow2_unit_2uv''"

text \<open>\<^verbatim>\<open>SupportedShaders.__eq__\<close> against a string compares the member's value.\<close>

definition SupportedShaders_eq :: "SupportedShaders \<Rightarrow> string \<Rightarrow> bool" where
  "SupportedShaders_eq self other = (SupportedShaders_value self = other)"

subsection \<open>Generators\<close>

text \<open>
  A generator is the sequence of what it yields, ended by its return (\<open>Stop\<close>) or by
  the exception it raises (\<open>Raise\<close>). The consumer sees the items one at a time, so
  what it does with an item happens before a later \<open>Raise\<close>.
\<close>

datatype 'a gen = Stop | Yield 'a "'a gen" | Raise error

fun fetch_textures_from_dow2_unit :: "VarChunk list \<Rightarrow> (TextureType \<times> string) gen" where
  "fetch_textures_from_dow2_unit [] = Stop"
| "fetch_textures_from_dow2_unit (chunk # chunks) =
     (if var_type chunk \<noteq> Texture then fetch_textures_from_dow2_unit chunks
      else case TextureType_call (property_name chunk) of
             Inl e \<Rightarrow> Raise e
           | Inr ty \<Rightarrow> Yield (ty, args chunk) (fetch_textures_from_dow2_unit chunks))"

text \<open>
  \<^verbatim>\<open>fetch_textures_from_mtrl\<close> is an ordinary function: it raises when it is called, and
  otherwise returns the generator.
\<close>

definition fetch_textures_from_mtrl :: "MtrlChunk \<Rightarrow> error + (TextureType \<times> string) gen" where
  "fetch_textures_from_mtrl chunk =
     (if list_ex (\<lambda>s. SupportedShaders_eq s (shader_name (info chunk)))
           [Dow2_Unit, Dow2_Unit_2Uv]
      then Inr (fetch_textures_from_dow2_unit (vars chunk))
      else Inl (NotImplementedError (Some (shader_name (info chunk)))))"

subsection \<open>Paths\<close>

text \<open>
  \<^verbatim>\<open>os.path.join\<close> and \<^verbatim>\<open>os.path.split\<close> of the Python standard library, in their POSIX
  form (separator \<^verbatim>\<open>/\<close>), for two arguments.
\<close>

definition startswith_sep :: "string \<Rightarrow> bool" where
  "startswith_sep b = (case b of [] \<Rightarrow> False | c # cs \<Rightarrow> c = CHR ''/'')"

definition endswith_sep :: "string \<Rightarrow> bool" where
  "endswith_sep a = (case rev a of [] \<Rightarrow> False | c # cs \<Rightarrow> c = CHR ''/'')"

definition path_join :: "string \<Rightarrow> string \<Rightarrow> string" where
  "path_join a b =
     (if startswith_sep b then b
      else if a = [] \<or> endswith_sep a then a @ b
      else a @ ''/'' @ b)"

definition rstrip_sep :: "string \<Rightarrow> string" where
  "rstrip_sep s = rev (dropWhile (\<lambda>c. c = CHR ''/'') (rev s))"

definition path_split :: "string \<Rightarrow> string \<times> string" where
  "path_split p =
     (let head = rev (dropWhile (\<lambda>c. c \<noteq> CHR ''/'') (rev p));
          tail = rev (takeWhile (\<lambda>c. c \<noteq> CHR ''/'') (rev p))
      in (if head \<noteq> [] \<and> head \<noteq> replicate (length head) (CHR ''/'')
          then rstrip_sep head else head,
          tail))"

text \<open>\<^verbatim>\<open>b.replace(" ", "_")\<close>.\<close>

definition replace_space :: "string \<Rightarrow> string" where
  "replace_space b = map (\<lambda>c. if c = CHR '' '' then CHR ''_'' else c) b"

subsection \<open>The material stream\<close>

datatype mtl_line =
    Write_default_texture string
  | Write_unsupported_texture string string
  | Write_texture_emissive string
  | Write_texture_diffuse string
  | Write_texture_alpha string
  | Write_texture_normal string
  | Write_texture_specular string

text \<open>
  The path of a texture, as the loop of \<^verbatim>\<open>write_mtrl_to_mtl\<close> builds it; \<open>texture_ext\<close>
  is the extension after \<^verbatim>\<open>texture_ext or ""\<close>.
\<close>

definition full_texture_path :: "string option \<Rightarrow> string \<Rightarrow> bool \<Rightarrow> string \<Rightarrow> string" where
  "full_texture_path texture_root texture_ext force_valid texture =
     (let full_texture =
            (case texture_root of
               None \<Rightarrow> texture
             | Some r \<Rightarrow> if r = [] then texture else path_join r texture);
          full_texture = full_texture @ texture_ext
      in if force_valid
         then (case path_split full_texture of (d, b) \<Rightarrow> path_join d (replace_space b))
         else full_texture)"

text \<open>The body of the loop: one yielded pair.\<close>

definition write_texture ::
  "mtl_line list \<Rightarrow> string option \<Rightarrow> string \<Rightarrow> bool \<Rightarrow> TextureType \<Rightarrow> string
     \<Rightarrow> mtl_line list \<times> (error + unit)" where
  "write_texture stream texture_root texture_ext force_valid tex_type texture =
     (let full_texture = full_texture_path texture_root texture_ext force_valid texture
      in if tex_type = Team
           then (stream @ [Write_unsupported_texture full_texture ''Team''], Inr ())
         else if tex_type = Dirt
           then (stream @ [Write_unsupported_texture full_texture ''Dirt''], Inr ())
         else if tex_type = BadgePrimary
           then (stream @ [Write_unsupported_texture full_texture ''Badge 1''], Inr ())
         else if tex_type = BadgeSecondary
           then (stream @ [Write_unsupported_texture full_texture ''Badge 2''], Inr ())
         else if tex_type = Emissive
           then (stream @ [Write_texture_emissive full_texture], Inr ())
         else if tex_type = Occlusion
           then (stream @ [Write_unsupported_texture full_texture ''Occlusion''], Inr ())
         else if tex_type = Gloss
           then (stream @ [Write_unsupported_texture full_texture ''Gloss''], Inr ())
         else if tex_type = Diffuse
           then (stream @ [Write_texture_diffuse full_texture,
                           Write_texture_alpha full_texture], Inr ())
         else if tex_type = Normal
           then (stream @ [Write_texture_normal full_texture], Inr ())
         else if tex_type = Specular
           then (stream @ [Write_texture_specular full_texture], Inr ())
         else (stream, Inl (NotImplementedError None)))"

fun write_textures ::
  "mtl_line list \<Rightarrow> string option \<Rightarrow> string \<Rightarrow> bool \<Rightarrow> (TextureType \<times> string) gen
     \<Rightarrow> mtl_line list \<times> (error + unit)" where
  "write_textures stream texture_root texture_ext force_valid Stop = (stream, Inr ())"
| "write_textures stream texture_root texture_ext force_valid (Raise e) = (stream, Inl e)"
| "write_textures stream texture_root texture_ext force_valid (Yield (tex_type, texture) g) =
     (case write_texture stream texture_root texture_ext force_valid tex_type texture of
        (stream', Inl e) \<Rightarrow> (stream', Inl e)
      | (stream', Inr u) \<Rightarrow> write_textures stream' texture_root texture_ext force_valid g)"

text \<open>
  \<^verbatim>\<open>write_mtrl_to_mtl(stream, chunk, texture_root, texture_ext, force_valid)\<close>. The
  position \<^verbatim>\<open>stream.tell()\<close> depends on the text the \<^verbatim>\<open>MtlWriter\<close> produces, so it is a
  parameter: \<open>tell\<close> maps what has been written to the position.
\<close>

definition write_mtrl_to_mtl ::
  "(mtl_line list \<Rightarrow> int) \<Rightarrow> mtl_line list \<Rightarrow> MtrlChunk \<Rightarrow> string option \<Rightarrow> string option
     \<Rightarrow> bool \<Rightarrow> mtl_line list \<times> (error + int)" where
  "write_mtrl_to_mtl tell stream chunk texture_root texture_ext force_valid =
     (let ext = (case texture_ext of None \<Rightarrow> [] | Some e \<Rightarrow> e);
          start = tell stream;
          stream1 = stream @ [Write_default_texture (name chunk)]
      in case fetch_textures_from_mtrl chunk of
           Inl e \<Rightarrow> (stream1, Inl e)
         | Inr g \<Rightarrow>
             (case write_textures stream1 texture_root ext force_valid g of
                (stream2, Inl e) \<Rightarrow> (stream2, Inl e)
              | (stream2, Inr u) \<Rightarrow> (stream2, Inr (tell stream2 - start))))"

text \<open>A position function for the examples: one unit for each entry written.\<close>

definition tell_entries :: "mtl_line list \<Rightarrow> int" where
  "tell_entries stream = int (length stream)"

subsection \<open>Reading a generator\<close>

text \<open>What a generator yields before it ends, and the exception that ends it, if any.\<close>

fun yielded :: "'a gen \<Rightarrow> 'a list" where
  "yielded Stop = []"
| "yielded (Raise e) = []"
| "yielded (Yield x g) = x # yielded g"

fun raised :: "'a gen \<Rightarrow> error option" where
  "raised Stop = None"
| "raised (Raise e) = Some e"
| "raised (Yield x g) = raised g"

text \<open>The values of the members of \<^verbatim>\<open>TextureType\<close>.\<close>

definition wire_strings :: "string list" where
  "wire_strings = map TextureType_value TextureType_members"

subsection \<open>Example inputs\<close>

text \<open>A mesh of one vertex and one triangle, with a material name that has a dot.\<close>

definition unit_mesh :: "int TrimDataChunk" where
  "unit_mesh =
     \<lparr>material_name = ''a.b'',
      vertexes = [\<lparr>position = (0, 0, 0), normal = (0, 0, 1), uv = (0, 0)\<rparr>],
      indexes = [0, 0, 0]\<rparr>"

definition helmet_mesh :: "int TrimDataChunk" where
  "helmet_mesh =
     \<lparr>material_name = ''teamcolor.helmet'',
      vertexes = [\<lparr>position = (0, 0, 0), normal = (0, 0, 1), uv = (0, 0)\<rparr>],
      indexes = [0, 0, 0]\<rparr>"

text \<open>An empty mesh whose material name has no dot.\<close>

definition plain_mesh :: "int TrimDataChunk" where
  "plain_mesh = \<lparr>material_name = ''helmet'', vertexes = [], indexes = []\<rparr>"

text \<open>Materials: a supported shader, an unknown shader, a texture path with a space.\<close>

definition rifle_mtrl :: MtrlChunk where
  "rifle_mtrl =
     \<lparr>name = ''rifle'', info = \<lparr>shader_name = ''dow2_unit''\<rparr>,
      vars = [\<lparr>var_type = Texture, property_name = ''diffuseTex'', args = ''tex/rifle_d''\<rparr>]\<rparr>"

definition unsupported_mtrl :: MtrlChunk where
  "unsupported_mtrl =
     \<lparr>name = ''m'', info = \<lparr>shader_name = ''foo''\<rparr>,
      vars = [\<lparr>var_type = Texture, property_name = ''diffuseTex'', args = ''tex/rifle_d''\<rparr>]\<rparr>"

definition spaced_mtrl :: MtrlChunk where
  "spaced_mtrl =
     \<lparr>name = ''rifle'', info = \<lparr>shader_name = ''dow2_unit''\<rparr>,
      vars = [\<lparr>var_type = Texture, property_name = ''diffuseTex'', args = ''rifle d''\<rparr>]\<rparr>"

text \<open>
  Materials whose texture paths have a space in the directory and in the last segment:
  one with an occlusion texture and a normal map, one with all ten textures.
\<close>

definition helmet_mtrl :: MtrlChunk where
  "helmet_mtrl =
     \<lparr>name = ''helmet'', info = \<lparr>shader_name = ''dow2_unit''\<rparr>,
      vars =
        [\<lparr>var_type = Texture, property_name = ''occlusionTex'', args = ''tex dir/rifle helmet''\<rparr>,
         \<lparr>var_type = Texture, property_name = ''normalMap'', args = ''tex dir/rifle helmet''\<rparr>]\<rparr>"

definition spaced_paths_mtrl :: MtrlChunk where
  "spaced_paths_mtrl =
     \<lparr>name = ''helmet'', info = \<lparr>shader_name = ''dow2_unit_2uv''\<rparr>,
      vars =
        [\<lparr>var_type = Texture, property_name = ''teamTex'', args = ''tex dir/team map''\<rparr>,
         \<lparr>var_type = Texture, property_name = ''dirtTex'', args = ''tex dir/dirt map''\<rparr>,
         \<lparr>var_type = Texture, property_name = ''badge2Tex'', args = ''tex dir/badge2 map''\<rparr>,
         \<lparr>var_type = Texture, property_name = ''badge1Tex'', args = ''tex dir/badge1 map''\<rparr>,
         \<lparr>var_type = Texture, property_name = ''normalMap'', args = ''tex dir/normal map''\<rparr>,
         \<lparr>var_type = Texture, property_name = ''diffuseTex'', args = ''tex dir/diffuse map''\<rparr>,
         \<lparr>var_type = Texture, property_name = ''emissiveTex'', args = ''tex dir/emissive map''\<rparr>,
         \<lparr>var_type = Texture, property_name = ''specularTex'', args = ''tex dir/specular map''\<rparr>,
         \<lparr>var_type = Texture, property_name = ''occlusionTex'', args = ''tex dir/occlusion map''\<rparr>,
         \<lparr>var_type = Texture, property_name = ''glossTex'', args = ''tex dir/gloss map''\<rparr>]\<rparr>"

text \<open>
  Material variables: one that is not a texture, a gloss texture, a texture with an
  unknown property name, and a team texture after it.
\<close>

definition mixed_vars :: "VarChunk list" where
  "mixed_vars =
     [\<lparr>var_type = OtherVarType, property_name = ''tint'', args = ''1''\<rparr>,
      \<lparr>var_type = Texture, property_name = ''glossTex'', args = ''g''\<rparr>,
      \<lparr>var_type = Texture, property_name = ''bogus'', args = ''b''\<rparr>,
      \<lparr>var_type = Texture, property_name = ''teamTex'', args = ''t''\<rparr>]"

section \<open>Properties\<close>

subsection \<open>The running vertex offset\<close>

text \<open>
  C1. The claim is that \<open>write_model_to_obj\<close> returns the total number of vertices of the
  model. \<open>write_trim_data_to_obj\<close> already returns the offset it was given plus the
  number of vertices of its mesh, and the loop adds that result to the offset it holds,
  so the offset is counted twice from the second mesh on: for a model of two meshes of
  one vertex each the function returns 3, not 2.
\<close>

theorem write_model_to_obj_two_meshes:
  "snd (write_model_to_obj [] \<lparr>meshs = [unit_mesh, unit_mesh], mtrls = []\<rparr>) = Inr 3"
  by code_simp

text \<open>
  C2. The claim is that the mesh number \<open>k\<close> is written with the offset that is the sum of
  the vertex counts of the meshes before it, so that its face indices fall in the block
  of its own vertices. For a model of three meshes of one vertex each, the third mesh is
  written with the offset 3 where the two meshes before it have 2 vertices: the last
  face written has the offset 3, and its local index 0 becomes the global index 4,
  outside the block \<open>[3, 3]\<close> of the third mesh. The function returns 7.
\<close>

theorem write_model_to_obj_three_meshes:
  "last (fst (write_model_to_obj []
            \<lparr>meshs = [unit_mesh, unit_mesh, unit_mesh], mtrls = []\<rparr>))
     = Write_index_face 0 0 0 3 True
   \<and> face_index 3 0 = 4
   \<and> snd (write_model_to_obj []
            \<lparr>meshs = [unit_mesh, unit_mesh, unit_mesh], mtrls = []\<rparr>) = Inr 7"
  by code_simp

subsection \<open>The object label\<close>

lemma write_vertexes_append:
  "write_vertexes (a @ b) vs = a @ write_vertexes b vs"
  by (induction vs arbitrary: b) simp_all

lemma write_vertexes_Cons:
  "write_vertexes (x # b) vs = x # write_vertexes b vs"
  using write_vertexes_append [of "[x]" b vs] by simp

lemma write_indexes_append:
  "write_indexes (a @ b) ixs v_offset rng = a @ write_indexes b ixs v_offset rng"
  by (induction rng arbitrary: b) simp_all

lemma write_indexes_Cons:
  "write_indexes (x # b) ixs v_offset rng = x # write_indexes b ixs v_offset rng"
  using write_indexes_append [of "[x]" b ixs v_offset rng] by simp

text \<open>What a call writes and returns once the unpacking has given a label.\<close>

lemma write_trim_data_to_obj_label:
  assumes "unpack2 (iterate (name_or_rsplit nm (material_name chunk))) = Inr (u, label)"
  shows "write_trim_data_to_obj stream chunk nm v_offset
           = (stream @ [Write ''\<newline># Object\<newline>'', Write_object_name label,
                        Write (TAB # ''# Vertexes\<newline>'')]
                @ write_vertexes [] (vertexes chunk)
                @ [Write ''# Material\<newline>'', Write_use_material (material_name chunk),
                   Write (TAB # ''# Indexes\<newline>'')]
                @ write_indexes [] (indexes chunk) v_offset [0 ..< length (indexes chunk) div 3],
              Inr (v_offset + int (length (vertexes chunk))))"
  by (simp add: write_trim_data_to_obj_def Let_def assms write_vertexes_append
        write_vertexes_Cons write_indexes_append write_indexes_Cons)

lemma write_trim_data_to_obj_error:
  assumes "unpack2 (iterate (name_or_rsplit nm (material_name chunk))) = Inl e"
  shows "write_trim_data_to_obj stream chunk nm v_offset
           = (stream @ [Write ''\<newline># Object\<newline>''], Inl e)"
  unfolding write_trim_data_to_obj_def Let_def assms by simp

lemma rsplit_dot_last:
  assumes "s = pre @ ''.'' @ suf" and "CHR ''.'' \<notin> set suf"
  shows "rsplit_dot s = [pre, suf]"
proof -
  have r: "rev s = rev suf @ CHR ''.'' # rev pre" using assms(1) by simp
  have t: "takeWhile (\<lambda>c. c \<noteq> CHR ''.'') (rev s) = rev suf"
    unfolding r using assms(2) by (auto simp: takeWhile_tail)
  have "dropWhile (\<lambda>c. c \<noteq> CHR ''.'') (rev suf @ CHR ''.'' # rev pre)
          = dropWhile (\<lambda>c. c \<noteq> CHR ''.'') (CHR ''.'' # rev pre)"
    by (rule dropWhile_append2) (use assms(2) in auto)
  then have d: "dropWhile (\<lambda>c. c \<noteq> CHR ''.'') (rev s) = CHR ''.'' # rev pre"
    unfolding r by simp
  have "CHR ''.'' \<in> set s" using assms(1) by simp
  then show ?thesis by (simp add: rsplit_dot_def t d)
qed

lemma split_at_last_dot:
  assumes "CHR ''.'' \<in> set s"
  shows "\<exists>pre suf. s = pre @ ''.'' @ suf \<and> CHR ''.'' \<notin> set suf"
proof -
  from assms have "CHR ''.'' \<in> set (rev s)" by simp
  then obtain ys zs where "rev s = ys @ CHR ''.'' # zs" "CHR ''.'' \<notin> set ys"
    by (meson split_list_first)
  then have "rev (rev s) = rev (ys @ CHR ''.'' # zs)" "CHR ''.'' \<notin> set (rev ys)"
    by simp_all
  then have "s = rev zs @ ''.'' @ rev ys" "CHR ''.'' \<notin> set (rev ys)"
    by simp_all
  then show ?thesis by blast
qed

lemma unpack2_chars:
  "unpack2 (map (\<lambda>c. [c]) n)
     = (if length n = 2 then Inr ([n ! 0], [n ! 1]) else Inl (ValueError_unpack (length n)))"
proof (cases n)
  case Nil
  then show ?thesis by simp
next
  case (Cons a as)
  then show ?thesis
  proof (cases as)
    case Nil
    with Cons show ?thesis by simp
  next
    case (Cons b bs)
    with \<open>n = a # as\<close> show ?thesis by (cases bs) simp_all
  qed
qed

text \<open>
  C6, as it is stated, at the empty explicit name. The claim is that every explicit name
  that is not \<^verbatim>\<open>None\<close> and whose length is not 2 makes the call raise
  \<^verbatim>\<open>ValueError\<close>. The empty string is such a name, and it is false in
  \<^verbatim>\<open>name or ...\<close>, so the material name is split instead: with the material name
  \<^verbatim>\<open>a.b\<close> the call succeeds and writes the label \<^verbatim>\<open>b\<close>.
\<close>

theorem write_trim_data_to_obj_empty_name:
  "length '''' \<noteq> (2::nat)
   \<and> write_trim_data_to_obj [] (plain_mesh\<lparr>material_name := ''a.b''\<rparr>) (Some '''') 0
       = ([Write ''\<newline># Object\<newline>'', Write_object_name ''b'',
           Write (TAB # ''# Vertexes\<newline>''), Write ''# Material\<newline>'',
           Write_use_material ''a.b'', Write (TAB # ''# Indexes\<newline>'')], Inr 0)"
  by code_simp

text \<open>
  C6, amended to explicit names that are not empty. An explicit name \<open>n\<close> that is not
  empty is itself unpacked into two targets: when its length is not 2 the call raises
  \<^verbatim>\<open>ValueError\<close>, having written only the object comment; when its length is 2 the
  label written is its second character, which is not the name. Without an explicit
  name, a material name with no dot raises \<^verbatim>\<open>ValueError\<close> in the same way. The empty
  explicit name behaves as no explicit name.
\<close>

theorem write_trim_data_to_obj_name_unpack:
  "(n \<noteq> [] \<and> length n \<noteq> 2 \<longrightarrow>
      write_trim_data_to_obj stream chunk (Some n) v_offset
        = (stream @ [Write ''\<newline># Object\<newline>''], Inl (ValueError_unpack (length n))))
   \<and> (length n = 2 \<longrightarrow>
      [n ! 1] \<noteq> n
      \<and> write_trim_data_to_obj stream chunk (Some n) v_offset
        = (stream @ [Write ''\<newline># Object\<newline>'', Write_object_name [n ! 1],
                     Write (TAB # ''# Vertexes\<newline>'')]
             @ write_vertexes [] (vertexes chunk)
             @ [Write ''# Material\<newline>'', Write_use_material (material_name chunk),
                Write (TAB # ''# Indexes\<newline>'')]
             @ write_indexes [] (indexes chunk) v_offset [0 ..< length (indexes chunk) div 3],
           Inr (v_offset + int (length (vertexes chunk)))))
   \<and> (CHR ''.'' \<notin> set (material_name chunk) \<longrightarrow>
      write_trim_data_to_obj stream chunk None v_offset
        = (stream @ [Write ''\<newline># Object\<newline>''], Inl (ValueError_unpack 1)))
   \<and> write_trim_data_to_obj stream chunk (Some []) v_offset
       = write_trim_data_to_obj stream chunk None v_offset"
proof (intro conjI impI)
  assume "n \<noteq> [] \<and> length n \<noteq> 2"
  then have "unpack2 (iterate (name_or_rsplit (Some n) (material_name chunk)))
               = Inl (ValueError_unpack (length n))"
    by (simp add: unpack2_chars)
  then show "write_trim_data_to_obj stream chunk (Some n) v_offset
        = (stream @ [Write ''\<newline># Object\<newline>''], Inl (ValueError_unpack (length n)))"
    by (rule write_trim_data_to_obj_error)
next
  assume l: "length n = 2"
  show "[n ! 1] \<noteq> n"
  proof
    assume "[n ! 1] = n"
    then have "length n = length [n ! 1]" by (rule arg_cong [OF sym])
    with l show False by simp
  qed
  from l have "n \<noteq> []" by auto
  with l have "unpack2 (iterate (name_or_rsplit (Some n) (material_name chunk)))
               = Inr ([n ! 0], [n ! 1])"
    by (simp add: unpack2_chars)
  then show "write_trim_data_to_obj stream chunk (Some n) v_offset
        = (stream @ [Write ''\<newline># Object\<newline>'', Write_object_name [n ! 1],
                     Write (TAB # ''# Vertexes\<newline>'')]
             @ write_vertexes [] (vertexes chunk)
             @ [Write ''# Material\<newline>'', Write_use_material (material_name chunk),
                Write (TAB # ''# Indexes\<newline>'')]
             @ write_indexes [] (indexes chunk) v_offset [0 ..< length (indexes chunk) div 3],
           Inr (v_offset + int (length (vertexes chunk))))"
    by (rule write_trim_data_to_obj_label)
next
  assume "CHR ''.'' \<notin> set (material_name chunk)"
  then have "unpack2 (iterate (name_or_rsplit None (material_name chunk)))
               = Inl (ValueError_unpack 1)"
    by (simp add: rsplit_dot_def)
  then show "write_trim_data_to_obj stream chunk None v_offset
        = (stream @ [Write ''\<newline># Object\<newline>''], Inl (ValueError_unpack 1))"
    by (rule write_trim_data_to_obj_error)
next
  show "write_trim_data_to_obj stream chunk (Some []) v_offset
       = write_trim_data_to_obj stream chunk None v_offset"
    by (simp add: write_trim_data_to_obj_def)
qed

text \<open>
  The amended C6 at the explicit names \<^verbatim>\<open>rifle\<close> (length 5) and \<^verbatim>\<open>xy\<close> (length 2), and
  at a material name with no dot.
\<close>

theorem write_trim_data_to_obj_name_unpack_witness:
  "write_trim_data_to_obj [] helmet_mesh (Some ''rifle'') 0
     = ([Write ''\<newline># Object\<newline>''], Inl (ValueError_unpack 5))
   \<and> write_trim_data_to_obj [] plain_mesh (Some ''xy'') 0
     = ([Write ''\<newline># Object\<newline>'', Write_object_name ''y'',
           Write (TAB # ''# Vertexes\<newline>''), Write ''# Material\<newline>'',
           Write_use_material ''helmet'', Write (TAB # ''# Indexes\<newline>'')], Inr 0)
   \<and> write_trim_data_to_obj [] plain_mesh None 0
     = ([Write ''\<newline># Object\<newline>''], Inl (ValueError_unpack 1))"
  using write_trim_data_to_obj_name_unpack [of "''rifle''" "[]" helmet_mesh 0]
        write_trim_data_to_obj_name_unpack [of "''xy''" "[]" plain_mesh 0]
  by (simp add: plain_mesh_def helmet_mesh_def)

text \<open>
  C7. Without an explicit name, a material name that has a dot is split at its last dot:
  for \<open>pre @ ''.'' @ suf\<close> with no dot in \<open>suf\<close> the label written is \<open>suf\<close>, and the
  material-use entry names the whole material name, not the label. Every material name
  with a dot is of that form.
\<close>

theorem write_trim_data_to_obj_derived_label:
  "(material_name chunk = pre @ ''.'' @ suf \<and> CHR ''.'' \<notin> set suf \<longrightarrow>
      write_trim_data_to_obj stream chunk None v_offset
        = (stream @ [Write ''\<newline># Object\<newline>'', Write_object_name suf,
                     Write (TAB # ''# Vertexes\<newline>'')]
             @ write_vertexes [] (vertexes chunk)
             @ [Write ''# Material\<newline>'', Write_use_material (pre @ ''.'' @ suf),
                Write (TAB # ''# Indexes\<newline>'')]
             @ write_indexes [] (indexes chunk) v_offset [0 ..< length (indexes chunk) div 3],
           Inr (v_offset + int (length (vertexes chunk)))))
   \<and> (CHR ''.'' \<in> set (material_name chunk) \<longrightarrow>
        (\<exists>p s. material_name chunk = p @ ''.'' @ s \<and> CHR ''.'' \<notin> set s))"
proof (intro conjI impI)
  assume a: "material_name chunk = pre @ ''.'' @ suf \<and> CHR ''.'' \<notin> set suf"
  then have "rsplit_dot (material_name chunk) = [pre, suf]"
    using rsplit_dot_last by blast
  then have "unpack2 (iterate (name_or_rsplit None (material_name chunk))) = Inr (pre, suf)"
    by simp
  from write_trim_data_to_obj_label [OF this] a
  show "write_trim_data_to_obj stream chunk None v_offset
        = (stream @ [Write ''\<newline># Object\<newline>'', Write_object_name suf,
                     Write (TAB # ''# Vertexes\<newline>'')]
             @ write_vertexes [] (vertexes chunk)
             @ [Write ''# Material\<newline>'', Write_use_material (pre @ ''.'' @ suf),
                Write (TAB # ''# Indexes\<newline>'')]
             @ write_indexes [] (indexes chunk) v_offset [0 ..< length (indexes chunk) div 3],
           Inr (v_offset + int (length (vertexes chunk))))"
    by simp
next
  assume "CHR ''.'' \<in> set (material_name chunk)"
  then show "\<exists>p s. material_name chunk = p @ ''.'' @ s \<and> CHR ''.'' \<notin> set s"
    by (rule split_at_last_dot)
qed

text \<open>C7 at the material name \<^verbatim>\<open>teamcolor.helmet\<close>: the label is \<^verbatim>\<open>helmet\<close>.\<close>

theorem write_trim_data_to_obj_derived_label_witness:
  "material_name helmet_mesh = ''teamcolor'' @ ''.'' @ ''helmet''
   \<and> CHR ''.'' \<notin> set ''helmet''
   \<and> write_trim_data_to_obj [] helmet_mesh None 0
     = ([Write ''\<newline># Object\<newline>'', Write_object_name ''helmet'',
         Write (TAB # ''# Vertexes\<newline>''),
         Write [TAB], Write_vertex_position (0, 0, 0),
         Write [TAB], Write_vertex_normal (0, 0, 1),
         Write [TAB], Write_vertex_uv (0, 0), Write ''\<newline>'',
         Write ''# Material\<newline>'', Write_use_material ''teamcolor.helmet'',
         Write (TAB # ''# Indexes\<newline>''),
         Write [TAB], Write_index_face 0 0 0 0 True], Inr 1)"
  using write_trim_data_to_obj_derived_label
          [of helmet_mesh "''teamcolor''" "''helmet''" "[]" 0]
  by (simp add: helmet_mesh_def)

subsection \<open>Shaders and texture variables\<close>

lemma SupportedShaders_eq_iff:
  "SupportedShaders_eq Dow2_Unit n \<longleftrightarrow> n = ''dow2_unit''"
  "SupportedShaders_eq Dow2_Unit_2Uv n \<longleftrightarrow> n = ''dow2_unit_2uv''"
  by (auto simp: SupportedShaders_eq_def)

text \<open>
  C3, as it is stated, at a material with the shader \<^verbatim>\<open>foo\<close>. The claim is that the
  call fails before anything is written for the material. The call does fail with
  \<^verbatim>\<open>NotImplementedError("foo")\<close>, but \<^verbatim>\<open>write_default_texture\<close> is called before
  \<^verbatim>\<open>fetch_textures_from_mtrl\<close>: the stream, empty before, holds the default-texture
  entry of the material afterwards.
\<close>

theorem write_mtrl_to_mtl_unsupported_partial:
  "snd (write_mtrl_to_mtl tell_entries [] unsupported_mtrl None None True)
     = Inl (NotImplementedError (Some ''foo''))
   \<and> fst (write_mtrl_to_mtl tell_entries [] unsupported_mtrl None None True)
     = [Write_default_texture ''m'']
   \<and> fst (write_mtrl_to_mtl tell_entries [] unsupported_mtrl None None True) \<noteq> []"
  by code_simp

text \<open>
  C3, amended. For a material whose shader name is neither \<^verbatim>\<open>dow2_unit\<close> nor
  \<^verbatim>\<open>dow2_unit_2uv\<close>, the call fails with \<^verbatim>\<open>NotImplementedError\<close> carrying the shader
  name, after it has written exactly one entry, the default texture of the material, and
  before any entry for a texture.
\<close>

theorem write_mtrl_to_mtl_unsupported_shader:
  assumes "shader_name (info chunk) \<noteq> ''dow2_unit''"
      and "shader_name (info chunk) \<noteq> ''dow2_unit_2uv''"
  shows "write_mtrl_to_mtl tell stream chunk texture_root texture_ext force_valid
           = (stream @ [Write_default_texture (name chunk)],
              Inl (NotImplementedError (Some (shader_name (info chunk)))))"
  using assms
  by (simp add: write_mtrl_to_mtl_def fetch_textures_from_mtrl_def SupportedShaders_eq_iff
        Let_def)

text \<open>The amended C3 at the material with the shader \<^verbatim>\<open>foo\<close>.\<close>

theorem write_mtrl_to_mtl_unsupported_shader_witness:
  "shader_name (info unsupported_mtrl) \<noteq> ''dow2_unit''
   \<and> shader_name (info unsupported_mtrl) \<noteq> ''dow2_unit_2uv''
   \<and> write_mtrl_to_mtl tell_entries [] unsupported_mtrl (Some ''textures'') (Some ''.dds'') True
       = ([Write_default_texture ''m''], Inl (NotImplementedError (Some ''foo'')))"
  using write_mtrl_to_mtl_unsupported_shader
          [of unsupported_mtrl tell_entries "[]" "Some ''textures''" "Some ''.dds''" True]
  by (simp add: unsupported_mtrl_def)

text \<open>
  C4. \<open>fetch_textures_from_mtrl\<close> fails exactly when the shader name of the material is
  neither \<^verbatim>\<open>dow2_unit\<close> nor \<^verbatim>\<open>dow2_unit_2uv\<close>; the failure is \<^verbatim>\<open>NotImplementedError\<close>
  carrying the shader name; and when it does not fail its result is the generator
  \<open>fetch_textures_from_dow2_unit\<close> of the variables of the material.
\<close>

theorem fetch_textures_from_mtrl_supported:
  "(isl (fetch_textures_from_mtrl chunk)
      \<longleftrightarrow> shader_name (info chunk) \<noteq> ''dow2_unit''
          \<and> shader_name (info chunk) \<noteq> ''dow2_unit_2uv'')
   \<and> (isl (fetch_textures_from_mtrl chunk)
      \<longrightarrow> fetch_textures_from_mtrl chunk
            = Inl (NotImplementedError (Some (shader_name (info chunk)))))
   \<and> (\<not> isl (fetch_textures_from_mtrl chunk)
      \<longrightarrow> fetch_textures_from_mtrl chunk
            = Inr (fetch_textures_from_dow2_unit (vars chunk)))"
  by (simp add: fetch_textures_from_mtrl_def SupportedShaders_eq_iff)

text \<open>C4 at a material with the shader \<^verbatim>\<open>foo\<close> and at one with \<^verbatim>\<open>dow2_unit\<close>.\<close>

theorem fetch_textures_from_mtrl_supported_witness:
  "isl (fetch_textures_from_mtrl unsupported_mtrl)
   \<and> fetch_textures_from_mtrl unsupported_mtrl = Inl (NotImplementedError (Some ''foo''))
   \<and> \<not> isl (fetch_textures_from_mtrl rifle_mtrl)
   \<and> fetch_textures_from_mtrl rifle_mtrl = Inr (Yield (Diffuse, ''tex/rifle_d'') Stop)"
  using fetch_textures_from_mtrl_supported [of unsupported_mtrl]
        fetch_textures_from_mtrl_supported [of rifle_mtrl]
  by (simp add: unsupported_mtrl_def rifle_mtrl_def TextureType_call_def
        TextureType_members_def)

lemma wire_strings_eq:
  "wire_strings = [''teamTex'', ''dirtTex'', ''badge2Tex'', ''badge1Tex'', ''normalMap'',
     ''diffuseTex'', ''emissiveTex'', ''specularTex'', ''occlusionTex'', ''glossTex'']"
  by (simp add: wire_strings_def TextureType_members_def)

lemma TextureType_call_value: "TextureType_call (TextureType_value t) = Inr t"
  by (cases t) (simp_all add: TextureType_call_def TextureType_members_def)

lemma TextureType_call_unknown:
  "s \<notin> set wire_strings \<Longrightarrow> TextureType_call s = Inl (ValueError_TextureType s)"
  by (auto simp: TextureType_call_def TextureType_members_def wire_strings_def)

lemma TextureType_call_known:
  "s \<in> set wire_strings \<Longrightarrow> \<exists>t. TextureType_call s = Inr t \<and> TextureType_value t = s"
  by (auto simp: TextureType_call_def TextureType_members_def wire_strings_def)

lemma fetch_yielded:
  "map (\<lambda>(t, p). (TextureType_value t, p)) (yielded (fetch_textures_from_dow2_unit chunks))
     = map (\<lambda>c. (property_name c, args c))
         (takeWhile (\<lambda>c. property_name c \<in> set wire_strings)
            (filter (\<lambda>c. var_type c = Texture) chunks))"
proof (induction chunks)
  case Nil
  show ?case by simp
next
  case (Cons c cs)
  show ?case
  proof (cases "var_type c = Texture")
    case False
    with Cons show ?thesis by simp
  next
    case tex: True
    show ?thesis
    proof (cases "property_name c \<in> set wire_strings")
      case True
      from TextureType_call_known [OF True] obtain t
        where "TextureType_call (property_name c) = Inr t" "TextureType_value t = property_name c"
        by blast
      with Cons tex True show ?thesis by simp
    next
      case False
      from TextureType_call_unknown [OF False] tex False show ?thesis by simp
    qed
  qed
qed

lemma fetch_raised:
  "raised (fetch_textures_from_dow2_unit chunks)
     = (case dropWhile (\<lambda>c. property_name c \<in> set wire_strings)
               (filter (\<lambda>c. var_type c = Texture) chunks) of
          [] \<Rightarrow> None
        | c # cs \<Rightarrow> Some (ValueError_TextureType (property_name c)))"
proof (induction chunks)
  case Nil
  show ?case by simp
next
  case (Cons c cs)
  show ?case
  proof (cases "var_type c = Texture")
    case False
    with Cons show ?thesis by simp
  next
    case tex: True
    show ?thesis
    proof (cases "property_name c \<in> set wire_strings")
      case True
      from TextureType_call_known [OF True] obtain t
        where "TextureType_call (property_name c) = Inr t"
        by blast
      with Cons tex True show ?thesis by simp
    next
      case False
      from TextureType_call_unknown [OF False] tex False show ?thesis by simp
    qed
  qed
qed

text \<open>
  C5. \<open>fetch_textures_from_dow2_unit\<close>, one variable at a time: a variable that is not a
  texture is skipped; a texture whose property name is the value of the member \<open>t\<close> is
  yielded as \<open>(t, args)\<close> before the rest is looked at; a texture whose property name is
  none of the ten values ends the generator with the \<^verbatim>\<open>ValueError\<close> naming it, and
  nothing is yielded for it. On the whole list: the pairs yielded are, in the order of
  the input, those of the texture variables before the first one with an unknown name,
  and the generator ends with the error of that one, if there is one.
\<close>

theorem fetch_textures_from_dow2_unit_extract:
  "(var_type c \<noteq> Texture \<longrightarrow>
      fetch_textures_from_dow2_unit (c # cs) = fetch_textures_from_dow2_unit cs)
   \<and> (var_type c = Texture \<and> property_name c = TextureType_value t \<longrightarrow>
      fetch_textures_from_dow2_unit (c # cs)
        = Yield (t, args c) (fetch_textures_from_dow2_unit cs))
   \<and> (var_type c = Texture \<and> property_name c \<notin> set wire_strings \<longrightarrow>
      fetch_textures_from_dow2_unit (c # cs) = Raise (ValueError_TextureType (property_name c)))
   \<and> wire_strings
       = [''teamTex'', ''dirtTex'', ''badge2Tex'', ''badge1Tex'', ''normalMap'',
          ''diffuseTex'', ''emissiveTex'', ''specularTex'', ''occlusionTex'', ''glossTex'']
   \<and> map (\<lambda>(t, p). (TextureType_value t, p)) (yielded (fetch_textures_from_dow2_unit chunks))
       = map (\<lambda>c. (property_name c, args c))
           (takeWhile (\<lambda>c. property_name c \<in> set wire_strings)
              (filter (\<lambda>c. var_type c = Texture) chunks))
   \<and> raised (fetch_textures_from_dow2_unit chunks)
       = (case dropWhile (\<lambda>c. property_name c \<in> set wire_strings)
                 (filter (\<lambda>c. var_type c = Texture) chunks) of
            [] \<Rightarrow> None
          | c # cs \<Rightarrow> Some (ValueError_TextureType (property_name c)))"
  using fetch_yielded [of chunks] fetch_raised [of chunks] wire_strings_eq
  by (simp add: TextureType_call_value TextureType_call_unknown)

text \<open>
  C5 at four variables: one that is not a texture, a gloss texture, a texture named
  \<^verbatim>\<open>bogus\<close>, a team texture.
\<close>

theorem fetch_textures_from_dow2_unit_extract_witness:
  "fetch_textures_from_dow2_unit mixed_vars
     = Yield (Gloss, ''g'') (Raise (ValueError_TextureType ''bogus''))
   \<and> yielded (fetch_textures_from_dow2_unit mixed_vars) = [(Gloss, ''g'')]
   \<and> raised (fetch_textures_from_dow2_unit mixed_vars) = Some (ValueError_TextureType ''bogus'')"
  using fetch_textures_from_dow2_unit_extract
          [of "mixed_vars ! 0" "tl mixed_vars" Gloss mixed_vars]
        fetch_textures_from_dow2_unit_extract
          [of "mixed_vars ! 1" "drop 2 mixed_vars" Gloss mixed_vars]
        fetch_textures_from_dow2_unit_extract
          [of "mixed_vars ! 2" "drop 3 mixed_vars" Gloss mixed_vars]
  by (simp add: mixed_vars_def TextureType_call_def TextureType_members_def)

subsection \<open>The dispatch on the texture type\<close>

lemma write_texture_ok:
  "snd (write_texture stream texture_root texture_ext force_valid tex_type texture) = Inr ()"
  by (cases tex_type) (simp_all add: write_texture_def Let_def)

lemma write_textures_error:
  "snd (write_textures stream texture_root texture_ext force_valid
          (fetch_textures_from_dow2_unit chunks)) \<noteq> Inl (NotImplementedError None)"
proof (induction chunks arbitrary: stream)
  case Nil
  show ?case by simp
next
  case (Cons c cs)
  show ?case
  proof (cases "var_type c = Texture")
    case False
    with Cons show ?thesis by simp
  next
    case True
    show ?thesis
    proof (cases "TextureType_call (property_name c)")
      case (Inl e)
      then have "e = ValueError_TextureType (property_name c)"
        by (simp add: TextureType_call_def split: option.splits)
      with Inl True show ?thesis by simp
    next
      case (Inr t)
      obtain s' r
        where w: "write_texture stream texture_root texture_ext force_valid t (args c) = (s', r)"
        by (cases "write_texture stream texture_root texture_ext force_valid t (args c)")
      with write_texture_ok [of stream texture_root texture_ext force_valid t "args c"]
      have "r = Inr ()" by simp
      with w Inr True Cons [of s'] show ?thesis by simp
    qed
  qed
qed

text \<open>
  C10. The body of the loop succeeds for every member of \<open>TextureType\<close>: each of the ten
  is taken by one of the branches before the last \<^verbatim>\<open>else\<close>. So \<open>write_mtrl_to_mtl\<close>
  never fails with the bare \<^verbatim>\<open>NotImplementedError\<close> of that \<^verbatim>\<open>else\<close>.
\<close>

theorem write_mtrl_to_mtl_else_unreachable:
  "snd (write_texture stream texture_root ext force_valid tex_type texture) = Inr ()
   \<and> snd (write_mtrl_to_mtl tell stream chunk texture_root texture_ext force_valid)
       \<noteq> Inl (NotImplementedError None)"
proof -
  have "snd (write_mtrl_to_mtl tell stream chunk texture_root texture_ext force_valid)
       \<noteq> Inl (NotImplementedError None)"
  proof (cases "fetch_textures_from_mtrl chunk")
    case (Inl e)
    then have "e = NotImplementedError (Some (shader_name (info chunk)))"
      by (simp add: fetch_textures_from_mtrl_def split: if_splits)
    with Inl show ?thesis by (simp add: write_mtrl_to_mtl_def Let_def)
  next
    case (Inr g)
    then have g: "g = fetch_textures_from_dow2_unit (vars chunk)"
      by (simp add: fetch_textures_from_mtrl_def split: if_splits)
    define e where "e = (case texture_ext of None \<Rightarrow> [] | Some x \<Rightarrow> x)"
    obtain s' r where w: "write_textures (stream @ [Write_default_texture (name chunk)])
        texture_root e force_valid g = (s', r)"
      by (cases "write_textures (stream @ [Write_default_texture (name chunk)])
        texture_root e force_valid g")
    with write_textures_error [of "stream @ [Write_default_texture (name chunk)]"
        texture_root e force_valid "vars chunk"] g
    have "r \<noteq> Inl (NotImplementedError None)" by simp
    with w Inr show ?thesis
      by (cases r) (simp_all add: write_mtrl_to_mtl_def Let_def e_def)
  qed
  with write_texture_ok show ?thesis by simp
qed

text \<open>C10 at a material with one diffuse texture.\<close>

theorem write_mtrl_to_mtl_else_unreachable_witness:
  "snd (write_texture [] None [] True Diffuse ''tex/rifle_d'') = Inr ()
   \<and> snd (write_mtrl_to_mtl tell_entries [] rifle_mtrl None None True)
       \<noteq> Inl (NotImplementedError None)"
  using write_mtrl_to_mtl_else_unreachable
          [of "[]" None "[]" True Diffuse "''tex/rifle_d''" tell_entries rifle_mtrl None]
  by simp

subsection \<open>Texture paths\<close>

lemma all_sep_conv:
  "(xs = replicate (length xs) c) = list_all (\<lambda>x. x = c) xs"
  by (induction xs) auto

lemma path_split_no_sep:
  assumes "CHR ''/'' \<notin> set p"
  shows "path_split p = ([], p)"
proof -
  have t: "takeWhile (\<lambda>c. c \<noteq> CHR ''/'') (rev p) = rev p"
    using assms by (auto simp: takeWhile_eq_all_conv)
  have d: "dropWhile (\<lambda>c. c \<noteq> CHR ''/'') (rev p) = []"
    using assms by (auto simp: dropWhile_eq_Nil_conv)
  show ?thesis by (simp add: path_split_def t d)
qed

lemma path_split_last:
  assumes "p = dir @ ''/'' @ base" and "CHR ''/'' \<notin> set base"
  shows "path_split p
           = (if list_all (\<lambda>c. c = CHR ''/'') dir then dir @ ''/'' else rstrip_sep dir, base)"
proof -
  have r: "rev p = rev base @ CHR ''/'' # rev dir" using assms(1) by simp
  have t: "takeWhile (\<lambda>c. c \<noteq> CHR ''/'') (rev p) = rev base"
    unfolding r using assms(2) by (auto simp: takeWhile_tail)
  have "dropWhile (\<lambda>c. c \<noteq> CHR ''/'') (rev base @ CHR ''/'' # rev dir)
          = dropWhile (\<lambda>c. c \<noteq> CHR ''/'') (CHR ''/'' # rev dir)"
    by (rule dropWhile_append2) (use assms(2) in auto)
  then have d: "dropWhile (\<lambda>c. c \<noteq> CHR ''/'') (rev p) = CHR ''/'' # rev dir"
    unfolding r by simp
  have a: "(dir @ ''/'' = replicate (length (dir @ ''/'')) (CHR ''/''))
             = list_all (\<lambda>c. c = CHR ''/'') dir"
    unfolding all_sep_conv by simp
  have s: "rstrip_sep (dir @ ''/'') = rstrip_sep dir"
    by (simp add: rstrip_sep_def)
  show ?thesis
    unfolding path_split_def Let_def t d
    using a s by simp
qed

lemma replace_space_no_sep:
  "CHR ''/'' \<notin> set b \<Longrightarrow> \<not> startswith_sep (replace_space b)"
  by (cases b) (auto simp: startswith_sep_def replace_space_def)

lemma rstrip_sep_end:
  assumes "\<not> list_all (\<lambda>c. c = CHR ''/'') dir"
  shows "rstrip_sep dir \<noteq> [] \<and> \<not> endswith_sep (rstrip_sep dir)"
proof -
  let ?d = "dropWhile (\<lambda>c. c = CHR ''/'') (rev dir)"
  have ne: "?d \<noteq> []"
    using assms by (auto simp: dropWhile_eq_Nil_conv list_all_iff)
  then have "hd ?d \<noteq> CHR ''/''"
    using hd_dropWhile [of "\<lambda>c. c = CHR ''/''" "rev dir"] by simp
  with ne show ?thesis
    by (cases ?d) (simp_all add: rstrip_sep_def endswith_sep_def)
qed

lemma all_sep_end:
  assumes "list_all (\<lambda>c. c = CHR ''/'') dir"
  shows "endswith_sep (dir @ ''/'')"
  by (simp add: endswith_sep_def)

lemma rstrip_sep_id:
  assumes "dir \<noteq> []" and "last dir \<noteq> CHR ''/''"
  shows "rstrip_sep dir = dir \<and> \<not> list_all (\<lambda>c. c = CHR ''/'') dir"
proof -
  from assms obtain xs x where d: "dir = xs @ [x]" "x \<noteq> CHR ''/''"
    by (metis append_butlast_last_id)
  then show ?thesis by (simp add: rstrip_sep_def)
qed

lemma sanitize_no_sep:
  assumes "CHR ''/'' \<notin> set (full_texture_path texture_root ext False texture)"
  shows "full_texture_path texture_root ext True texture
           = replace_space (full_texture_path texture_root ext False texture)"
proof -
  have "\<not> startswith_sep (replace_space (full_texture_path texture_root ext False texture))"
    using assms by (rule replace_space_no_sep)
  then show ?thesis
    using path_split_no_sep [OF assms]
    by (simp add: full_texture_path_def path_join_def Let_def)
qed

lemma sanitize_last:
  assumes "full_texture_path texture_root ext False texture = dir @ ''/'' @ base"
      and "CHR ''/'' \<notin> set base"
  shows "full_texture_path texture_root ext True texture
           = (if list_all (\<lambda>c. c = CHR ''/'') dir then dir else rstrip_sep dir)
               @ ''/'' @ replace_space base"
proof -
  have n: "\<not> startswith_sep (replace_space base)"
    using assms(2) by (rule replace_space_no_sep)
  have q: "full_texture_path texture_root ext True texture
             = (case path_split (full_texture_path texture_root ext False texture) of
                  (d, b) \<Rightarrow> path_join d (replace_space b))"
    by (simp add: full_texture_path_def Let_def)
  show ?thesis
  proof (cases "list_all (\<lambda>c. c = CHR ''/'') dir")
    case True
    with all_sep_end [OF True] n show ?thesis
      unfolding q path_split_last [OF assms] by (simp add: path_join_def)
  next
    case False
    with rstrip_sep_end [OF False] n show ?thesis
      unfolding q path_split_last [OF assms] by (simp add: path_join_def)
  qed
qed

text \<open>
  C8, as it is stated, at a diffuse texture \<^verbatim>\<open>rifle d\<close> with no root, no extension and
  the default \<^verbatim>\<open>force_valid=True\<close>. The claim is that both entries name the path built
  by joining the root with the path and appending the extension, which is \<^verbatim>\<open>rifle d\<close>
  here. Both entries name \<^verbatim>\<open>rifle_d\<close>: the path has gone through the replacement of
  spaces before the dispatch.
\<close>

theorem write_mtrl_to_mtl_diffuse_sanitized:
  "write_mtrl_to_mtl tell_entries [] spaced_mtrl None None True
     = ([Write_default_texture ''rifle'', Write_texture_diffuse ''rifle_d'',
         Write_texture_alpha ''rifle_d''], Inr 3)
   \<and> full_texture_path None [] False ''rifle d'' = ''rifle d''
   \<and> ''rifle_d'' \<noteq> ''rifle d''"
  by code_simp

text \<open>
  C8, amended. A yielded pair \<open>(Diffuse, texture)\<close> makes the loop write exactly two
  entries, the diffuse map and the alpha map, both with the same path, and go on with
  the rest. Without \<^verbatim>\<open>force_valid\<close> that path is the texture joined to the root (when
  there is a root and it is not empty) followed by the extension as it is; with
  \<^verbatim>\<open>force_valid\<close>, the default, it is that path after the replacement of spaces in its
  last segment. For the shader \<^verbatim>\<open>dow2_unit\<close>, one texture variable
  \<^verbatim>\<open>("diffuseTex", "tex/rifle_d")\<close>, the root \<^verbatim>\<open>textures\<close> and the extension \<^verbatim>\<open>.dds\<close>,
  both entries name \<^verbatim>\<open>textures/tex/rifle_d.dds\<close>.
\<close>

theorem write_textures_diffuse:
  "write_textures stream texture_root ext force_valid (Yield (Diffuse, texture) g)
     = write_textures
         (stream @ [Write_texture_diffuse (full_texture_path texture_root ext force_valid texture),
                    Write_texture_alpha (full_texture_path texture_root ext force_valid texture)])
         texture_root ext force_valid g
   \<and> full_texture_path None ext False texture = texture @ ext
   \<and> full_texture_path (Some []) ext False texture = texture @ ext
   \<and> (r \<noteq> [] \<longrightarrow>
        full_texture_path (Some r) ext False texture = path_join r texture @ ext)
   \<and> (r \<noteq> [] \<and> \<not> endswith_sep r \<and> \<not> startswith_sep texture \<longrightarrow>
        full_texture_path (Some r) ext False texture = r @ ''/'' @ texture @ ext)
   \<and> full_texture_path texture_root ext True texture
       = full_texture_path None [] True (full_texture_path texture_root ext False texture)
   \<and> write_mtrl_to_mtl tell_entries [] rifle_mtrl (Some ''textures'') (Some ''.dds'') True
       = ([Write_default_texture ''rifle'',
           Write_texture_diffuse ''textures/tex/rifle_d.dds'',
           Write_texture_alpha ''textures/tex/rifle_d.dds''], Inr 3)"
proof -
  have e: "write_mtrl_to_mtl tell_entries [] rifle_mtrl (Some ''textures'') (Some ''.dds'') True
       = ([Write_default_texture ''rifle'',
           Write_texture_diffuse ''textures/tex/rifle_d.dds'',
           Write_texture_alpha ''textures/tex/rifle_d.dds''], Inr 3)"
    by code_simp
  show ?thesis
    unfolding e
    by (simp add: write_texture_def full_texture_path_def path_join_def Let_def)
qed

text \<open>The amended C8 at the root \<^verbatim>\<open>textures\<close>, the extension \<^verbatim>\<open>.dds\<close> and the path \<^verbatim>\<open>tex/rifle_d\<close>.\<close>

theorem write_textures_diffuse_witness:
  "full_texture_path (Some ''textures'') ''.dds'' False ''tex/rifle_d'' = ''textures/tex/rifle_d.dds''
   \<and> full_texture_path (Some ''textures'') ''.dds'' True ''tex/rifle_d'' = ''textures/tex/rifle_d.dds''
   \<and> write_textures [] (Some ''textures'') ''.dds'' True (Yield (Diffuse, ''tex/rifle_d'') Stop)
       = ([Write_texture_diffuse ''textures/tex/rifle_d.dds'',
           Write_texture_alpha ''textures/tex/rifle_d.dds''], Inr ())"
  using write_textures_diffuse
          [of "[]" "Some ''textures''" "''.dds''" True "''tex/rifle_d''" Stop "''textures''"]
  by (simp add: full_texture_path_def path_join_def path_split_def rstrip_sep_def
        replace_space_def startswith_sep_def endswith_sep_def)

lemma write_texture_append:
  "write_texture stream texture_root ext force_valid tex_type texture
     = (stream @ fst (write_texture [] texture_root ext force_valid tex_type texture), Inr ())"
  by (cases tex_type) (simp_all add: write_texture_def Let_def)

lemma write_textures_yielded:
  "write_textures stream texture_root ext force_valid g
     = (stream @ concat (map (\<lambda>(t, x). fst (write_texture [] texture_root ext force_valid t x))
                          (yielded g)),
        case raised g of None \<Rightarrow> Inr () | Some e \<Rightarrow> Inl e)"
proof (induction g arbitrary: stream)
  case Stop
  show ?case by simp
next
  case (Raise e)
  show ?case by simp
next
  case (Yield p g)
  obtain t x where p: "p = (t, x)" by (cases p)
  have "write_texture stream texture_root ext force_valid t x
          = (stream @ fst (write_texture [] texture_root ext force_valid t x), Inr ())"
    by (rule write_texture_append)
  with Yield p show ?case by simp
qed

lemma write_mtrl_to_mtl_supported:
  assumes "shader_name (info chunk) = ''dow2_unit''
             \<or> shader_name (info chunk) = ''dow2_unit_2uv''"
  shows "write_mtrl_to_mtl tell stream chunk texture_root texture_ext force_valid
           = (case write_textures (stream @ [Write_default_texture (name chunk)]) texture_root
                     (case texture_ext of None \<Rightarrow> [] | Some e \<Rightarrow> e) force_valid
                     (fetch_textures_from_dow2_unit (vars chunk)) of
                (stream2, Inl e) \<Rightarrow> (stream2, Inl e)
              | (stream2, Inr u) \<Rightarrow> (stream2, Inr (tell stream2 - tell stream)))"
  using assms
  by (auto simp: write_mtrl_to_mtl_def fetch_textures_from_mtrl_def SupportedShaders_eq_def
        Let_def)

lemma write_mtrl_to_mtl_written:
  assumes "shader_name (info chunk) = ''dow2_unit''
             \<or> shader_name (info chunk) = ''dow2_unit_2uv''"
  shows "fst (write_mtrl_to_mtl tell stream chunk texture_root texture_ext force_valid)
           = stream @ [Write_default_texture (name chunk)]
               @ concat (map (\<lambda>(t, x). fst (write_texture [] texture_root
                                 (case texture_ext of None \<Rightarrow> [] | Some e \<Rightarrow> e)
                                 force_valid t x))
                           (yielded (fetch_textures_from_dow2_unit (vars chunk))))"
  unfolding write_mtrl_to_mtl_supported [OF assms] write_textures_yielded
  by (simp split: option.splits)

text \<open>
  C9. With \<^verbatim>\<open>force_valid\<close>, the path built from root, texture and extension has the
  spaces of its last segment replaced by underscores, and only those. A path with no
  separator is its own last segment. A path \<open>dir @ ''/'' @ base\<close> with no separator in
  \<open>base\<close> keeps its directory part, spaces included, and gets \<open>replace_space base\<close> as
  its last segment; separators at the end of \<open>dir\<close>, which stand doubled before the last
  segment, are dropped by the split unless \<open>dir\<close> is made of separators only. When
  \<open>dir\<close> does not end with a separator the result is \<open>dir @ ''/'' @ replace_space base\<close>.

  That path is the one written: for each of the ten texture types the body of the loop
  writes its entries with \<open>full_texture_path\<close> of the yielded texture, under the flag it
  was given, and with nothing else; the loop writes, for the pairs yielded in their
  order, what its body writes for each; and \<open>write_mtrl_to_mtl\<close>, on a supported shader,
  writes the default texture and then what the loop writes for the texture variables of
  the material. For a material with the ten textures \<^verbatim>\<open>tex dir/team map\<close>, ... and no
  root or extension, every entry names its path with the space of the last segment
  replaced and the space of the directory kept.
\<close>

theorem full_texture_path_sanitize:
  "(CHR ''/'' \<notin> set (full_texture_path texture_root ext False texture) \<longrightarrow>
      full_texture_path texture_root ext True texture
        = replace_space (full_texture_path texture_root ext False texture))
   \<and> (full_texture_path texture_root ext False texture = dir @ ''/'' @ base
        \<and> CHR ''/'' \<notin> set base \<longrightarrow>
      full_texture_path texture_root ext True texture
        = (if list_all (\<lambda>c. c = CHR ''/'') dir then dir else rstrip_sep dir)
            @ ''/'' @ replace_space base)
   \<and> (full_texture_path texture_root ext False texture = dir @ ''/'' @ base
        \<and> CHR ''/'' \<notin> set base \<and> dir \<noteq> [] \<and> last dir \<noteq> CHR ''/'' \<longrightarrow>
      full_texture_path texture_root ext True texture = dir @ ''/'' @ replace_space base)
   \<and> write_texture stream texture_root ext force_valid Team texture
       = (stream @ [Write_unsupported_texture
                      (full_texture_path texture_root ext force_valid texture) ''Team''], Inr ())
   \<and> write_texture stream texture_root ext force_valid Dirt texture
       = (stream @ [Write_unsupported_texture
                      (full_texture_path texture_root ext force_valid texture) ''Dirt''], Inr ())
   \<and> write_texture stream texture_root ext force_valid BadgePrimary texture
       = (stream @ [Write_unsupported_texture
                      (full_texture_path texture_root ext force_valid texture) ''Badge 1''],
          Inr ())
   \<and> write_texture stream texture_root ext force_valid BadgeSecondary texture
       = (stream @ [Write_unsupported_texture
                      (full_texture_path texture_root ext force_valid texture) ''Badge 2''],
          Inr ())
   \<and> write_texture stream texture_root ext force_valid Emissive texture
       = (stream @ [Write_texture_emissive
                      (full_texture_path texture_root ext force_valid texture)], Inr ())
   \<and> write_texture stream texture_root ext force_valid Occlusion texture
       = (stream @ [Write_unsupported_texture
                      (full_texture_path texture_root ext force_valid texture) ''Occlusion''],
          Inr ())
   \<and> write_texture stream texture_root ext force_valid Gloss texture
       = (stream @ [Write_unsupported_texture
                      (full_texture_path texture_root ext force_valid texture) ''Gloss''], Inr ())
   \<and> write_texture stream texture_root ext force_valid Diffuse texture
       = (stream @ [Write_texture_diffuse (full_texture_path texture_root ext force_valid texture),
                    Write_texture_alpha (full_texture_path texture_root ext force_valid texture)],
          Inr ())
   \<and> write_texture stream texture_root ext force_valid Normal texture
       = (stream @ [Write_texture_normal
                      (full_texture_path texture_root ext force_valid texture)], Inr ())
   \<and> write_texture stream texture_root ext force_valid Specular texture
       = (stream @ [Write_texture_specular
                      (full_texture_path texture_root ext force_valid texture)], Inr ())
   \<and> write_textures stream texture_root ext force_valid g
       = (stream @ concat (map (\<lambda>(t, x). fst (write_texture [] texture_root ext force_valid t x))
                            (yielded g)),
          case raised g of None \<Rightarrow> Inr () | Some e \<Rightarrow> Inl e)
   \<and> (shader_name (info chunk) = ''dow2_unit''
        \<or> shader_name (info chunk) = ''dow2_unit_2uv'' \<longrightarrow>
      fst (write_mtrl_to_mtl tell stream chunk texture_root texture_ext force_valid)
        = stream @ [Write_default_texture (name chunk)]
            @ concat (map (\<lambda>(t, x). fst (write_texture [] texture_root
                              (case texture_ext of None \<Rightarrow> [] | Some e \<Rightarrow> e)
                              force_valid t x))
                        (yielded (fetch_textures_from_dow2_unit (vars chunk)))))
   \<and> write_mtrl_to_mtl tell_entries [] spaced_paths_mtrl None None True
       = ([Write_default_texture ''helmet'',
           Write_unsupported_texture ''tex dir/team_map'' ''Team'',
           Write_unsupported_texture ''tex dir/dirt_map'' ''Dirt'',
           Write_unsupported_texture ''tex dir/badge2_map'' ''Badge 2'',
           Write_unsupported_texture ''tex dir/badge1_map'' ''Badge 1'',
           Write_texture_normal ''tex dir/normal_map'',
           Write_texture_diffuse ''tex dir/diffuse_map'',
           Write_texture_alpha ''tex dir/diffuse_map'',
           Write_texture_emissive ''tex dir/emissive_map'',
           Write_texture_specular ''tex dir/specular_map'',
           Write_unsupported_texture ''tex dir/occlusion_map'' ''Occlusion'',
           Write_unsupported_texture ''tex dir/gloss_map'' ''Gloss''], Inr 12)"
proof -
  have p1: "CHR ''/'' \<notin> set (full_texture_path texture_root ext False texture) \<longrightarrow>
      full_texture_path texture_root ext True texture
        = replace_space (full_texture_path texture_root ext False texture)"
    using sanitize_no_sep by blast
  have p2: "full_texture_path texture_root ext False texture = dir @ ''/'' @ base
        \<and> CHR ''/'' \<notin> set base \<longrightarrow>
      full_texture_path texture_root ext True texture
        = (if list_all (\<lambda>c. c = CHR ''/'') dir then dir else rstrip_sep dir)
            @ ''/'' @ replace_space base"
    using sanitize_last by blast
  have p3: "full_texture_path texture_root ext False texture = dir @ ''/'' @ base
        \<and> CHR ''/'' \<notin> set base \<and> dir \<noteq> [] \<and> last dir \<noteq> CHR ''/'' \<longrightarrow>
      full_texture_path texture_root ext True texture = dir @ ''/'' @ replace_space base"
  proof
    assume a: "full_texture_path texture_root ext False texture = dir @ ''/'' @ base
        \<and> CHR ''/'' \<notin> set base \<and> dir \<noteq> [] \<and> last dir \<noteq> CHR ''/''"
    then have "rstrip_sep dir = dir \<and> \<not> list_all (\<lambda>c. c = CHR ''/'') dir"
      using rstrip_sep_id by blast
    with a sanitize_last [of texture_root ext texture dir base]
    show "full_texture_path texture_root ext True texture = dir @ ''/'' @ replace_space base"
      by simp
  qed
  have loop: "write_textures stream texture_root ext force_valid g
       = (stream @ concat (map (\<lambda>(t, x). fst (write_texture [] texture_root ext force_valid t x))
                            (yielded g)),
          case raised g of None \<Rightarrow> Inr () | Some e \<Rightarrow> Inl e)"
    by (rule write_textures_yielded)
  have whole: "shader_name (info chunk) = ''dow2_unit''
        \<or> shader_name (info chunk) = ''dow2_unit_2uv'' \<longrightarrow>
      fst (write_mtrl_to_mtl tell stream chunk texture_root texture_ext force_valid)
        = stream @ [Write_default_texture (name chunk)]
            @ concat (map (\<lambda>(t, x). fst (write_texture [] texture_root
                              (case texture_ext of None \<Rightarrow> [] | Some e \<Rightarrow> e)
                              force_valid t x))
                        (yielded (fetch_textures_from_dow2_unit (vars chunk))))"
    using write_mtrl_to_mtl_written by blast
  have ex: "write_mtrl_to_mtl tell_entries [] spaced_paths_mtrl None None True
       = ([Write_default_texture ''helmet'',
           Write_unsupported_texture ''tex dir/team_map'' ''Team'',
           Write_unsupported_texture ''tex dir/dirt_map'' ''Dirt'',
           Write_unsupported_texture ''tex dir/badge2_map'' ''Badge 2'',
           Write_unsupported_texture ''tex dir/badge1_map'' ''Badge 1'',
           Write_texture_normal ''tex dir/normal_map'',
           Write_texture_diffuse ''tex dir/diffuse_map'',
           Write_texture_alpha ''tex dir/diffuse_map'',
           Write_texture_emissive ''tex dir/emissive_map'',
           Write_texture_specular ''tex dir/specular_map'',
           Write_unsupported_texture ''tex dir/occlusion_map'' ''Occlusion'',
           Write_unsupported_texture ''tex dir/gloss_map'' ''Gloss''], Inr 12)"
    by code_simp
  show ?thesis
    apply (intro conjI)
                    apply (rule p1)
                   apply (rule p2)
                  apply (rule p3)
                 apply (simp add: write_texture_def Let_def)
                apply (simp add: write_texture_def Let_def)
               apply (simp add: write_texture_def Let_def)
              apply (simp add: write_texture_def Let_def)
             apply (simp add: write_texture_def Let_def)
            apply (simp add: write_texture_def Let_def)
           apply (simp add: write_texture_def Let_def)
          apply (simp add: write_texture_def Let_def)
         apply (simp add: write_texture_def Let_def)
        apply (simp add: write_texture_def Let_def)
       apply (rule loop)
      apply (rule whole)
     apply (rule ex)
    done
qed

text \<open>
  C9 at the path \<^verbatim>\<open>tex dir/rifle helmet\<close> with no root and no extension, which becomes
  \<^verbatim>\<open>tex dir/rifle_helmet\<close>; at a path with no separator; at a doubled separator; and
  through \<open>write_mtrl_to_mtl\<close> for a material with an occlusion texture and a normal map.
\<close>

theorem full_texture_path_sanitize_witness:
  "full_texture_path None [] False ''tex dir/rifle helmet'' = ''tex dir'' @ ''/'' @ ''rifle helmet''
   \<and> CHR ''/'' \<notin> set ''rifle helmet''
   \<and> full_texture_path None [] True ''tex dir/rifle helmet'' = ''tex dir/rifle_helmet''
   \<and> CHR ''/'' \<notin> set (full_texture_path None [] False ''rifle helmet'')
   \<and> full_texture_path None [] True ''rifle helmet'' = ''rifle_helmet''
   \<and> full_texture_path None [] True ''tex//rifle helmet'' = ''tex/rifle_helmet''
   \<and> fst (write_mtrl_to_mtl tell_entries [] helmet_mtrl None None True)
       = [Write_default_texture ''helmet'',
          Write_unsupported_texture ''tex dir/rifle_helmet'' ''Occlusion'',
          Write_texture_normal ''tex dir/rifle_helmet'']"
  using full_texture_path_sanitize
          [where texture_root = None and ext = "[]" and texture = "''tex dir/rifle helmet''"
             and dir = "''tex dir''" and base = "''rifle helmet''" and stream = "[]"
             and force_valid = True and g = Stop and chunk = helmet_mtrl
             and tell = tell_entries and texture_ext = None]
        full_texture_path_sanitize
          [where texture_root = None and ext = "[]" and texture = "''rifle helmet''"
             and dir = "[]" and base = "[]"]
        full_texture_path_sanitize
          [where texture_root = None and ext = "[]" and texture = "''tex//rifle helmet''"
             and dir = "''tex/''" and base = "''rifle helmet''"]
  by (simp add: full_texture_path_def replace_space_def rstrip_sep_def helmet_mtrl_def
        TextureType_call_def TextureType_members_def)

end
